theory Spec2Isabelle
  imports Complex_Main "HOL-Library.Sublist"
begin

section \<open>JavaScript values\<close>

text \<open>
  The handler of \<^verbatim>\<open>index.js\<close> works on values that come out of \<^verbatim>\<open>JSON.parse\<close>:
  the webhook payload (parsed by \<^verbatim>\<open>bodyParser.json()\<close>) and the response bodies that
  axios parses. A value is \<^verbatim>\<open>undefined\<close>, \<^verbatim>\<open>null\<close>, a boolean, a number, a string,
  an array or a plain object. An object is the list of its own properties; the keys of a
  parsed object are distinct. Strings are lists of characters.
\<close>

datatype jsnum = Finite rat | PosInfinity | NegInfinity | NaN

datatype jsval =
    Undefined
  | Null
  | Bool bool
  | Num jsnum
  | Str string
  | Arr "jsval list"
  | Obj "(string \<times> jsval) list"

text \<open>
  What the program can throw and catch. \<open>AxiosError r m\<close> is the error axios rejects
  with: \<open>r\<close> is \<^verbatim>\<open>error.response.data\<close> when the server answered (a non-2xx status),
  \<open>None\<close> when there is no \<^verbatim>\<open>error.response\<close> (transport failure); \<open>m\<close> is
  \<^verbatim>\<open>error.message\<close>. The message texts of \<open>TypeError\<close> are the engine's and carry no
  weight here.
\<close>

datatype exn =
    TypeError string
  | AxiosError "jsval option" string
  | SystemError string

text \<open>JavaScript truthiness: what \<^verbatim>\<open>if (v)\<close>, \<^verbatim>\<open>v ? a : b\<close>, \<^verbatim>\<open>v && w\<close> and
  \<^verbatim>\<open>v || w\<close> test.\<close>

fun truthy :: "jsval \<Rightarrow> bool" where
  "truthy Undefined = False"
| "truthy Null = False"
| "truthy (Bool b) = b"
| "truthy (Num n) = (n \<noteq> Finite 0 \<and> n \<noteq> NaN)"
| "truthy (Str s) = (s \<noteq> [])"
| "truthy (Arr xs) = True"
| "truthy (Obj kvs) = True"

text \<open>\<^verbatim>\<open>a || b\<close>\<close>

definition js_or :: "jsval \<Rightarrow> jsval \<Rightarrow> jsval" where
  "js_or a b = (if truthy a then a else b)"

definition nullish :: "jsval \<Rightarrow> bool" where
  "nullish v = (v = Undefined \<or> v = Null)"

text \<open>
  Property read \<^verbatim>\<open>v.k\<close>, for the property names this program reads
  (\<^verbatim>\<open>projects_v2_item\<close>, \<^verbatim>\<open>project_node_id\<close>, \<^verbatim>\<open>content_node_id\<close>, \<^verbatim>\<open>action\<close>,
  \<^verbatim>\<open>errors\<close>, \<^verbatim>\<open>data\<close>, \<^verbatim>\<open>node\<close>, \<^verbatim>\<open>url\<close>, \<^verbatim>\<open>body\<close>): none of them is an
  array index, \<^verbatim>\<open>length\<close> or a member of a built-in prototype, so on anything but an
  object that has the property the read gives \<^verbatim>\<open>undefined\<close>; on \<^verbatim>\<open>undefined\<close> and
  \<^verbatim>\<open>null\<close> it throws.
\<close>

fun get_prop :: "jsval \<Rightarrow> string \<Rightarrow> exn + jsval" where
  "get_prop Undefined k = Inl (TypeError (''Cannot read properties of undefined (reading '' @ k @ '')''))"
| "get_prop Null k = Inl (TypeError (''Cannot read properties of null (reading '' @ k @ '')''))"
| "get_prop (Obj kvs) k = Inr (case map_of kvs k of None \<Rightarrow> Undefined | Some v \<Rightarrow> v)"
| "get_prop v k = Inr Undefined"

text \<open>Optional chaining \<^verbatim>\<open>v?.k\<close>: \<^verbatim>\<open>undefined\<close> when \<open>v\<close> is \<^verbatim>\<open>undefined\<close> or \<^verbatim>\<open>null\<close>.\<close>

definition get_prop_opt :: "jsval \<Rightarrow> string \<Rightarrow> exn + jsval" where
  "get_prop_opt v k = (if nullish v then Inr Undefined else get_prop v k)"

text \<open>
  String conversion, as a template literal \<^verbatim>\<open>`${v}`\<close> performs it. The text of a number
  is produced by the engine's number formatting, a parameter here. An array joins the texts
  of its elements with commas, \<^verbatim>\<open>undefined\<close> and \<^verbatim>\<open>null\<close> elements giving the empty
  text. A plain object gives \<^verbatim>\<open>[object Object]\<close> through \<^verbatim>\<open>Object.prototype.toString\<close>,
  unless it has an own property \<^verbatim>\<open>toString\<close>: a parsed value is never callable, the
  conversion then falls back to \<^verbatim>\<open>valueOf\<close>, which does not give a primitive either, and
  throws.
\<close>

fun ToString :: "(jsnum \<Rightarrow> string) \<Rightarrow> jsval \<Rightarrow> exn + string"
  and ArrayJoin :: "(jsnum \<Rightarrow> string) \<Rightarrow> jsval list \<Rightarrow> exn + string" where
  "ToString f Undefined = Inr ''undefined''"
| "ToString f Null = Inr ''null''"
| "ToString f (Bool b) = Inr (if b then ''true'' else ''false'')"
| "ToString f (Num n) = Inr (f n)"
| "ToString f (Str s) = Inr s"
| "ToString f (Arr xs) = ArrayJoin f xs"
| "ToString f (Obj kvs) =
     (if ''toString'' \<in> fst ` set kvs
      then Inl (TypeError ''Cannot convert object to primitive value'')
      else Inr ''[object Object]'')"
| "ArrayJoin f [] = Inr []"
| "ArrayJoin f (x # xs) =
     (case (if nullish x then Inr [] else ToString f x) of
        Inl e \<Rightarrow> Inl e
      | Inr s \<Rightarrow>
          (if xs = [] then Inr s
           else (case ArrayJoin f xs of Inl e \<Rightarrow> Inl e | Inr r \<Rightarrow> Inr (s @ '','' @ r))))"

text \<open>The values that are not objects or arrays.\<close>

fun primitive :: "jsval \<Rightarrow> bool" where
  "primitive (Arr xs) = False"
| "primitive (Obj kvs) = False"
| "primitive v = True"

text \<open>A value of \<^verbatim>\<open>process.env\<close>: a string, or \<^verbatim>\<open>undefined\<close> when the variable is not set.\<close>

fun env_val :: "string option \<Rightarrow> jsval" where
  "env_val None = Undefined"
| "env_val (Some s) = Str s"

text \<open>\<^verbatim>\<open>`${x}`\<close> for \<open>x\<close> a string or \<^verbatim>\<open>undefined\<close>.\<close>

fun render :: "string option \<Rightarrow> string" where
  "render None = ''undefined''"
| "render (Some s) = s"

section \<open>String operations\<close>

text \<open>\<^verbatim>\<open>s.split(c)\<close> for a one-character separator: never empty, \<open>[s]\<close> when \<open>c\<close> does
  not occur.\<close>

fun split :: "char \<Rightarrow> string \<Rightarrow> string list" where
  "split c [] = [[]]"
| "split c (x # xs) =
     (if x = c then [] # split c xs
      else (case split c xs of [] \<Rightarrow> [[x]] | p # ps \<Rightarrow> (x # p) # ps))"

text \<open>\<^verbatim>\<open>xs[i]\<close> on an array: \<^verbatim>\<open>undefined\<close> out of range.\<close>

definition js_index :: "'a list \<Rightarrow> nat \<Rightarrow> 'a option" where
  "js_index xs i = (if i < length xs then Some (xs ! i) else None)"

text \<open>\<^verbatim>\<open>hay.includes(needle)\<close> on strings: \<open>needle\<close> occurs in \<open>hay\<close> as a contiguous
  substring.\<close>

fun str_includes :: "string \<Rightarrow> string \<Rightarrow> bool" where
  "str_includes [] needle = (needle = [])"
| "str_includes (h # hs) needle = (prefix needle (h # hs) \<or> str_includes hs needle)"

text \<open>
  \<^verbatim>\<open>v.includes(needle)\<close> for a string \<open>needle\<close> and any receiver \<open>v\<close>: the substring test
  on a string, the membership test of \<^verbatim>\<open>Array.prototype.includes\<close> on an array; no other
  value has a callable \<^verbatim>\<open>includes\<close>.
\<close>

fun js_includes :: "jsval \<Rightarrow> string \<Rightarrow> exn + bool" where
  "js_includes (Str s) needle = Inr (str_includes s needle)"
| "js_includes (Arr xs) needle = Inr (Str needle \<in> set xs)"
| "js_includes v needle = Inl (TypeError ''existingBody.includes is not a function'')"

definition newline :: char where
  "newline = CHR 0x0A"

section \<open>Configuration, collaborators and effects\<close>

text \<open>The three values read from the environment at start-up (lines 23 to 25).\<close>

record config =
  GITHUB_WEBHOOK_SECRET :: "string option"
  GITHUB_TOKEN :: "string option"
  PROJECT_NODE_ID :: "string option"

definition CHECKLIST_FILE :: string where
  "CHECKLIST_FILE = ''checklist.md''"

definition X_HUB_SIGNATURE_256 :: string where
  "X_HUB_SIGNATURE_256 = ''x-hub-signature-256''"

definition SHA256_HEADER_PREFIX :: string where
  "SHA256_HEADER_PREFIX = ''sha256=''"

type_synonym headers = "(string \<times> string) list"

text \<open>
  The libraries and services the program calls, as parameters:
  \<^item> \<open>hmac_sha256_hex key msg\<close>: \<^verbatim>\<open>crypto.createHmac('sha256', key).update(msg).digest('hex')\<close>;
  \<^item> \<open>JSON_stringify v\<close>: \<^verbatim>\<open>JSON.stringify(v)\<close> for \<open>v\<close> other than \<^verbatim>\<open>undefined\<close>;
  \<^item> \<open>Number_toString\<close>: the text of a number;
  \<^item> \<open>axios_post url data headers\<close>, \<open>axios_get url headers\<close>, \<open>axios_patch url data headers\<close>:
    the \<^verbatim>\<open>data\<close> of the response, or the error the call rejects with;
  \<^item> \<open>readFileSync path encoding\<close>: the content of the file, or the error thrown.
\<close>

record env =
  hmac_sha256_hex :: "string \<Rightarrow> string \<Rightarrow> string"
  JSON_stringify :: "jsval \<Rightarrow> string"
  Number_toString :: "jsnum \<Rightarrow> string"
  axios_post :: "string \<Rightarrow> jsval \<Rightarrow> headers \<Rightarrow> exn + jsval"
  axios_get :: "string \<Rightarrow> headers \<Rightarrow> exn + jsval"
  axios_patch :: "string \<Rightarrow> jsval \<Rightarrow> headers \<Rightarrow> exn + jsval"
  readFileSync :: "string \<Rightarrow> string \<Rightarrow> exn + string"

text \<open>An argument of a console call: a value, or a caught error object.\<close>

datatype logarg = Val jsval | Thrown exn

text \<open>What a run does besides returning, in order: console output and outbound HTTP calls.\<close>

datatype event =
    ConsoleLog "logarg list"
  | ConsoleError "logarg list"
  | AxiosPost string jsval headers
  | AxiosGet string headers
  | AxiosPatch string jsval headers

fun outbound :: "event \<Rightarrow> bool" where
  "outbound (AxiosPost u d h) = True"
| "outbound (AxiosGet u h) = True"
| "outbound (AxiosPatch u d h) = True"
| "outbound e = False"

fun is_patch :: "event \<Rightarrow> bool" where
  "is_patch (AxiosPatch u d h) = True"
| "is_patch e = False"

text \<open>The URL an outbound call goes to.\<close>

fun call_url :: "event \<Rightarrow> string option" where
  "call_url (AxiosPost u d h) = Some u"
| "call_url (AxiosGet u h) = Some u"
| "call_url (AxiosPatch u d h) = Some u"
| "call_url e = None"

text \<open>The request as the handler reads it: the header map of Node (lower-case names) and
  \<^verbatim>\<open>req.body\<close> as the JSON body parser left it.\<close>

record request =
  headers :: "string \<rightharpoonup> string"
  body :: jsval

section \<open>The program\<close>

subsection \<open>verifySignature (lines 31 to 36)\<close>

text \<open>
  \<^verbatim>\<open>crypto.createHmac\<close> throws when the key is \<^verbatim>\<open>undefined\<close>; \<^verbatim>\<open>JSON.stringify(undefined)\<close>
  is \<^verbatim>\<open>undefined\<close>, on which \<^verbatim>\<open>hmac.update\<close> throws. Otherwise the result is the strict
  equality of the header (a string, or \<^verbatim>\<open>undefined\<close> when absent) with the digest string.
\<close>

definition verifySignature :: "env \<Rightarrow> config \<Rightarrow> request \<Rightarrow> exn + bool" where
  "verifySignature e cfg req =
     (let signature = headers req X_HUB_SIGNATURE_256 in
      case GITHUB_WEBHOOK_SECRET cfg of
        None \<Rightarrow> Inl (TypeError ''The key argument must be of type string'')
      | Some secret \<Rightarrow>
          (if body req = Undefined
           then Inl (TypeError ''The data argument must be of type string'')
           else
             (let digest = SHA256_HEADER_PREFIX @ hmac_sha256_hex e secret (JSON_stringify e (body req))
              in Inr (signature = Some digest))))"

subsection \<open>getIssueDetails (lines 39 to 77)\<close>

text \<open>The text of the template literal of lines 40 to 49, line by line.\<close>

definition query :: string where
  "query = concat (map (\<lambda>l. l @ [newline])
     [[],
      ''        query($id: ID!) {'',
      ''            node(id: $id) {'',
      ''                ... on Issue {'',
      ''                    url'',
      ''                    body'',
      ''                }'',
      ''            }'',
      ''        }'']) @ ''    ''"

text \<open>The object \<^verbatim>\<open>{ url, body }\<close> that the function returns; its \<^verbatim>\<open>body\<close> field is
  \<open>body_of\<close> here, \<open>body\<close> being the field of the request.\<close>

record issueDetails =
  url :: jsval
  body_of :: jsval

definition graphql_headers :: "config \<Rightarrow> headers" where
  "graphql_headers cfg =
     [(''Content-Type'', ''application/json''),
      (''Authorization'', ''Bearer '' @ render (GITHUB_TOKEN cfg))]"

definition graphql_data :: "jsval \<Rightarrow> jsval" where
  "graphql_data contentNodeId =
     Obj [(''query'', Str query), (''variables'', Obj [(''id'', contentNodeId)])]"

definition graphql_call :: "config \<Rightarrow> jsval \<Rightarrow> event" where
  "graphql_call cfg contentNodeId =
     AxiosPost ''https://api.github.com/graphql'' (graphql_data contentNodeId) (graphql_headers cfg)"

text \<open>
  The body of the \<^verbatim>\<open>try\<close> block once the response has arrived: \<open>data\<close> is
  \<^verbatim>\<open>response.data\<close>. The reads \<^verbatim>\<open>data.errors\<close> and \<^verbatim>\<open>data.data.node\<close> throw on
  \<^verbatim>\<open>undefined\<close> and \<^verbatim>\<open>null\<close>.
\<close>

definition getIssueDetails_data :: "jsval \<Rightarrow> (exn + issueDetails option) \<times> event list" where
  "getIssueDetails_data data =
     (case get_prop data ''errors'' of
        Inl err \<Rightarrow> (Inl err, [])
      | Inr errors \<Rightarrow>
          (if truthy errors
           then (Inr None, [ConsoleError [Val (Str ''Error fetching issue details:''), Val errors]])
           else
             (case get_prop data ''data'' of
                Inl err \<Rightarrow> (Inl err, [])
              | Inr d \<Rightarrow>
                  (case get_prop d ''node'' of
                     Inl err \<Rightarrow> (Inl err, [])
                   | Inr node \<Rightarrow>
                       (if truthy node
                        then
                          (case get_prop node ''url'' of
                             Inl err \<Rightarrow> (Inl err, [])
                           | Inr u \<Rightarrow>
                               (case get_prop node ''body'' of
                                  Inl err \<Rightarrow> (Inl err, [])
                                | Inr b \<Rightarrow> (Inr (Some \<lparr>url = u, body_of = b\<rparr>), [])))
                        else (Inr None, []))))))"

text \<open>The \<^verbatim>\<open>try\<close> block: the POST, then the above.\<close>

definition getIssueDetails_try ::
    "env \<Rightarrow> config \<Rightarrow> jsval \<Rightarrow> (exn + issueDetails option) \<times> event list" where
  "getIssueDetails_try e cfg contentNodeId =
     (case axios_post e ''https://api.github.com/graphql'' (graphql_data contentNodeId)
             (graphql_headers cfg) of
        Inl err \<Rightarrow> (Inl err, [graphql_call cfg contentNodeId])
      | Inr data \<Rightarrow>
          (case getIssueDetails_data data of
             (r, evs) \<Rightarrow> (r, graphql_call cfg contentNodeId # evs)))"

text \<open>The whole function: the \<^verbatim>\<open>catch\<close> clause logs what the block threw and returns
  \<^verbatim>\<open>null\<close>.\<close>

definition getIssueDetails ::
    "env \<Rightarrow> config \<Rightarrow> jsval \<Rightarrow> (exn + issueDetails option) \<times> event list" where
  "getIssueDetails e cfg contentNodeId =
     (case getIssueDetails_try e cfg contentNodeId of
        (Inl err, evs) \<Rightarrow>
          (Inr None, evs @ [ConsoleError [Val (Str ''Error during GraphQL request:''), Thrown err]])
      | (Inr r, evs) \<Rightarrow> (Inr r, evs))"

subsection \<open>readChecklist (lines 80 to 92)\<close>

record checklist =
  firstLine :: string
  fullContent :: string

definition readChecklist :: "env \<Rightarrow> checklist option \<times> event list" where
  "readChecklist e =
     (case readFileSync e CHECKLIST_FILE ''utf-8'' of
        Inl err \<Rightarrow>
          (None, [ConsoleError [Val (Str ''Error reading checklist file:''), Thrown err]])
      | Inr content \<Rightarrow>
          (let lines = split newline content
           in (Some \<lparr>firstLine = hd lines, fullContent = content\<rparr>, [])))"

subsection \<open>updateIssueBody (lines 95 to 141)\<close>

text \<open>Lines 97 to 103: the URL of the REST resource, from positions 3, 4 and 6 of the issue
  URL split at the slashes; a missing position renders as \<^verbatim>\<open>undefined\<close>.\<close>

definition rest_url :: "string \<Rightarrow> string" where
  "rest_url issueUrl =
     (let issueUrlParts = split CHR ''/'' issueUrl;
          owner = js_index issueUrlParts 3;
          repo = js_index issueUrlParts 4;
          issueNumber = js_index issueUrlParts 6
      in ''https://api.github.com/repos/'' @ render owner @ ''/'' @ render repo
           @ ''/issues/'' @ render issueNumber)"

definition rest_headers :: "config \<Rightarrow> headers" where
  "rest_headers cfg =
     [(''Authorization'', ''token '' @ render (GITHUB_TOKEN cfg)),
      (''Accept'', ''application/vnd.github.v3+json'')]"

text \<open>The argument of the \<^verbatim>\<open>console.error\<close> of line 139:
  \<^verbatim>\<open>error.response ? error.response.data : error.message\<close>.\<close>

fun error_detail :: "exn \<Rightarrow> jsval" where
  "error_detail (AxiosError (Some d) m) = d"
| "error_detail (AxiosError None m) = Str m"
| "error_detail (TypeError m) = Str m"
| "error_detail (SystemError m) = Str m"

definition already_exists :: event where
  "already_exists =
     ConsoleLog [Val (Str ''Checklist already exists in the issue body, not updating.'')]"

definition updated :: event where
  "updated = ConsoleLog [Val (Str ''Issue updated successfully with checklist!'')]"

text \<open>Lines 114 to 137, once the GET has answered with \<open>data\<close> (\<^verbatim>\<open>issueResponse.data\<close>);
  \<open>u\<close> is the URL of the REST resource.\<close>

definition updateIssueBody_data ::
    "env \<Rightarrow> config \<Rightarrow> string \<Rightarrow> jsval \<Rightarrow> (exn + unit) \<times> event list" where
  "updateIssueBody_data e cfg u data =
     (case get_prop data ''body'' of
        Inl err \<Rightarrow> (Inl err, [])
      | Inr b \<Rightarrow>
          (let existingBody = js_or b (Str [])
           in case readChecklist e of
                (None, evs) \<Rightarrow> (Inr (), evs @ [already_exists])
              | (Some c, evs) \<Rightarrow>
                  (case js_includes existingBody (firstLine c) of
                     Inl err \<Rightarrow> (Inl err, evs)
                   | Inr True \<Rightarrow> (Inr (), evs @ [already_exists])
                   | Inr False \<Rightarrow>
                       (case ToString (Number_toString e) existingBody of
                          Inl err \<Rightarrow> (Inl err, evs)
                        | Inr s \<Rightarrow>
                            (let updatedBody = s @ [newline, newline] @ fullContent c;
                                 patch = Obj [(''body'', Str updatedBody)]
                             in case axios_patch e u patch (rest_headers cfg) of
                                  Inl err \<Rightarrow>
                                    (Inl err, evs @ [AxiosPatch u patch (rest_headers cfg)])
                                | Inr r \<Rightarrow>
                                    (Inr (),
                                     evs @ [AxiosPatch u patch (rest_headers cfg), updated]))))))"

text \<open>The \<^verbatim>\<open>try\<close> block, lines 103 to 137.\<close>

definition updateIssueBody_try ::
    "env \<Rightarrow> config \<Rightarrow> string \<Rightarrow> (exn + unit) \<times> event list" where
  "updateIssueBody_try e cfg u =
     (let start = [ConsoleLog [Val (Str ''Updating issue at:''), Val (Str u)],
                   AxiosGet u (rest_headers cfg)]
      in case axios_get e u (rest_headers cfg) of
           Inl err \<Rightarrow> (Inl err, start)
         | Inr data \<Rightarrow>
             (case updateIssueBody_data e cfg u data of (r, evs) \<Rightarrow> (r, start @ evs)))"

text \<open>
  The whole function. \<^verbatim>\<open>issueUrl.split('/')\<close> of line 97 stands before the \<^verbatim>\<open>try\<close>:
  on a value that is not a string it throws out of the function. What the \<^verbatim>\<open>try\<close>
  block throws is logged by the \<^verbatim>\<open>catch\<close> clause and goes no further.
\<close>

definition updateIssueBody :: "env \<Rightarrow> config \<Rightarrow> jsval \<Rightarrow> (exn + unit) \<times> event list" where
  "updateIssueBody e cfg issueUrl =
     (case issueUrl of
        Str s \<Rightarrow>
          (case updateIssueBody_try e cfg (rest_url s) of
             (Inl err, evs) \<Rightarrow>
               (Inr (),
                evs @ [ConsoleError [Val (Str ''Error updating the issue:''), Val (error_detail err)]])
           | (Inr r, evs) \<Rightarrow> (Inr (), evs))
      | _ \<Rightarrow> (Inl (TypeError ''issueUrl.split is not a function''), []))"

subsection \<open>The handler of POST /webhook (lines 149 to 193)\<close>

text \<open>What the caller gets: the response sent (status and text), or none when the handler
  threw.\<close>

datatype outcome = Responded nat string | Unhandled exn

definition processed :: outcome where
  "processed = Responded 200 ''Webhook received and processed!''"

definition could_not_fetch :: event where
  "could_not_fetch = ConsoleLog [Val (Str ''Could not fetch issue details'')]"

text \<open>Lines 173 to 192, with \<open>contentNodeId\<close> read.\<close>

definition webhook_update :: "env \<Rightarrow> config \<Rightarrow> jsval \<Rightarrow> outcome \<times> event list" where
  "webhook_update e cfg contentNodeId =
     (if truthy contentNodeId
      then
        (case ToString (Number_toString e) contentNodeId of
           Inl err \<Rightarrow> (Unhandled err, [])
         | Inr cid \<Rightarrow>
             (let found = ConsoleLog [Val (Str (''Found content_node_id: '' @ cid))]
              in case getIssueDetails e cfg contentNodeId of
                   (Inl err, evs) \<Rightarrow> (Unhandled err, found # evs)
                 | (Inr None, evs) \<Rightarrow> (processed, found # evs @ [could_not_fetch])
                 | (Inr (Some details), evs) \<Rightarrow>
                     (if truthy (url details)
                      then
                        (case ToString (Number_toString e) (url details) of
                           Inl err \<Rightarrow> (Unhandled err, found # evs)
                         | Inr us \<Rightarrow>
                             (let shown = ConsoleLog [Val (Str (''Issue URL: '' @ us))]
                              in case updateIssueBody e cfg (url details) of
                                   (Inl err, evs') \<Rightarrow> (Unhandled err, found # evs @ shown # evs')
                                 | (Inr r, evs') \<Rightarrow> (processed, found # evs @ shown # evs')))
                      else (processed, found # evs @ [could_not_fetch]))))
      else (processed, [ConsoleLog [Val (Str ''content_node_id not found in the webhook payload'')]]))"

text \<open>Lines 156 to 171 and on, for a request whose signature was accepted.\<close>

definition webhook_verified :: "env \<Rightarrow> config \<Rightarrow> request \<Rightarrow> outcome \<times> event list" where
  "webhook_verified e cfg req =
     (case get_prop (body req) ''projects_v2_item'' of
        Inl err \<Rightarrow> (Unhandled err, [])
      | Inr item \<Rightarrow>
          (case get_prop_opt item ''project_node_id'' of
             Inl err \<Rightarrow> (Unhandled err, [])
           | Inr projectNodeId \<Rightarrow>
               (if projectNodeId \<noteq> env_val (PROJECT_NODE_ID cfg)
                then
                  (Responded 200 ''No action taken.'',
                   [ConsoleLog [Val (Str ''project_node_id does not match. No action taken.''),
                                Val projectNodeId, Val (env_val (PROJECT_NODE_ID cfg))]])
                else
                  (case get_prop_opt item ''content_node_id'' of
                     Inl err \<Rightarrow> (Unhandled err, [])
                   | Inr contentNodeId \<Rightarrow>
                       (case get_prop (body req) ''action'' of
                          Inl err \<Rightarrow> (Unhandled err, [])
                        | Inr action \<Rightarrow>
                            (if action \<noteq> Str ''created''
                             then
                               (case ToString (Number_toString e) action of
                                  Inl err \<Rightarrow> (Unhandled err, [])
                                | Inr a \<Rightarrow>
                                    (Responded 200 ''No action taken for non-created action.'',
                                     [ConsoleLog [Val (Str (''No action taken because the action is not ''
                                        @ [CHR 0x27] @ ''created'' @ [CHR 0x27] @ '': '' @ a))]]))
                             else webhook_update e cfg contentNodeId))))))"

text \<open>The handler.\<close>

definition webhook :: "env \<Rightarrow> config \<Rightarrow> request \<Rightarrow> outcome \<times> event list" where
  "webhook e cfg req =
     (case verifySignature e cfg req of
        Inl err \<Rightarrow> (Unhandled err, [])
      | Inr False \<Rightarrow>
          (Responded 403 ''Signature mismatch!'', [ConsoleLog [Val (Str ''Signature mismatch!'')]])
      | Inr True \<Rightarrow> webhook_verified e cfg req)"

section \<open>Concrete collaborators\<close>

text \<open>
  Stand-ins for the collaborators, to evaluate the program at concrete inputs: a secret, a
  token and a project, a digest function, a GraphQL service that resolves every node to the
  issue \<^verbatim>\<open>https://github.com/o/r/issues/5\<close>, a REST service whose issue has the body
  \<^verbatim>\<open>Hello\<close>, and a checklist file of two lines.
\<close>

definition demo_config :: config where
  "demo_config =
     \<lparr>GITHUB_WEBHOOK_SECRET = Some ''s3cret'', GITHUB_TOKEN = Some ''tkn'',
      PROJECT_NODE_ID = Some ''PVT_1''\<rparr>"

definition demo_checklist :: string where
  "demo_checklist = ''## Checklist'' @ [newline] @ ''- [ ] Step 1''"

definition demo_node :: jsval where
  "demo_node = Obj [(''url'', Str ''https://github.com/o/r/issues/5''), (''body'', Str ''Hello'')]"

definition demo_env :: env where
  "demo_env =
     \<lparr>hmac_sha256_hex = (\<lambda>key msg. ''c0ffee''),
      JSON_stringify = (\<lambda>v. ''{}''),
      Number_toString = (\<lambda>n. ''0''),
      axios_post = (\<lambda>u d h. Inr (Obj [(''data'', Obj [(''node'', demo_node)])])),
      axios_get = (\<lambda>u h. Inr (Obj [(''body'', Str ''Hello'')])),
      axios_patch = (\<lambda>u d h. Inr (Obj [])),
      readFileSync = (\<lambda>p enc. Inr demo_checklist)\<rparr>"

text \<open>The same, with one collaborator answering \<open>r\<close> instead.\<close>

definition demo_env_post :: "exn + jsval \<Rightarrow> env" where
  "demo_env_post r = demo_env\<lparr>axios_post := (\<lambda>u d h. r)\<rparr>"

definition demo_env_get :: "exn + jsval \<Rightarrow> env" where
  "demo_env_get r = demo_env\<lparr>axios_get := (\<lambda>u h. r)\<rparr>"

definition demo_env_patch :: "exn + jsval \<Rightarrow> env" where
  "demo_env_patch r = demo_env\<lparr>axios_patch := (\<lambda>u d h. r)\<rparr>"

definition demo_env_file :: "exn + string \<Rightarrow> env" where
  "demo_env_file r = demo_env\<lparr>readFileSync := (\<lambda>p enc. r)\<rparr>"

text \<open>A GraphQL service that gives a URL without repository and number, and a REST service
  that answers 404.\<close>

definition demo_env_short_url :: env where
  "demo_env_short_url =
     demo_env\<lparr>axios_post := (\<lambda>u d h. Inr (Obj [(''data'', Obj [(''node'',
                     Obj [(''url'', Str ''https://github.com/o''), (''body'', Null)])])])),
               axios_get := (\<lambda>u h. Inl (AxiosError (Some (Obj [(''message'', Str ''Not Found'')]))
                                           ''Request failed with status code 404''))\<rparr>"

text \<open>A request with the payload \<open>payload\<close> and the signature header \<open>sig\<close>.\<close>

definition demo_request :: "string option \<Rightarrow> jsval \<Rightarrow> request" where
  "demo_request sig payload = \<lparr>headers = (\<lambda>k. if k = ''x-hub-signature-256'' then sig else None),
                                body = payload\<rparr>"

definition demo_payload :: "string \<Rightarrow> jsval \<Rightarrow> jsval" where
  "demo_payload project action =
     Obj [(''action'', action),
          (''projects_v2_item'',
             Obj [(''project_node_id'', Str project), (''content_node_id'', Str ''I_1'')])]"

section \<open>Properties\<close>

subsection \<open>Strings\<close>

lemma split_nonempty: "split c s \<noteq> []"
  by (induction s) (auto split: list.splits)

lemma split_no_separator: "c \<notin> set s \<Longrightarrow> split c s = [s]"
  by (induction s) auto

lemma split_append_separator: "c \<notin> set a \<Longrightarrow> split c (a @ c # s) = a # split c s"
  by (induction a) (auto simp: split_nonempty split: list.splits)

lemma str_includes_sublist: "str_includes hay needle \<longleftrightarrow> sublist needle hay"
  by (induction hay) (auto simp: sublist_Cons_right)

lemma str_includes_substring: "str_includes hay needle \<longleftrightarrow> (\<exists>p s. hay = p @ needle @ s)"
  by (simp add: str_includes_sublist sublist_def)

lemma str_includes_empty: "str_includes hay []"
  by (induction hay) simp_all

subsection \<open>Signature check\<close>

lemma verifySignature_configured:
  "GITHUB_WEBHOOK_SECRET cfg = Some secret \<Longrightarrow> body req \<noteq> Undefined \<Longrightarrow>
   verifySignature e cfg req =
     Inr (headers req ''x-hub-signature-256''
            = Some (''sha256='' @ hmac_sha256_hex e secret (JSON_stringify e (body req))))"
  by (simp add: verifySignature_def X_HUB_SIGNATURE_256_def SHA256_HEADER_PREFIX_def)

lemma webhook_rejects:
  "verifySignature e cfg req = Inr False \<Longrightarrow>
   webhook e cfg req
     = (Responded 403 ''Signature mismatch!'', [ConsoleLog [Val (Str ''Signature mismatch!'')]])"
  by (simp add: webhook_def)

text \<open>
  C5. With the secret configured and a parsed body, \<open>verifySignature\<close> returns a boolean,
  and it is true exactly when the \<^verbatim>\<open>x-hub-signature-256\<close> header is present and equal,
  character by character, to \<^verbatim>\<open>sha256=\<close> followed by the hex HMAC-SHA256, under the
  secret, of \<^verbatim>\<open>JSON.stringify\<close> of the parsed body. The comparison is the equality of the
  two strings.
\<close>

theorem C5_verifySignature_iff:
  assumes "GITHUB_WEBHOOK_SECRET cfg = Some secret"
    and "body req \<noteq> Undefined"
  shows "verifySignature e cfg req =
           Inr (headers req ''x-hub-signature-256''
                  = Some (''sha256='' @ hmac_sha256_hex e secret (JSON_stringify e (body req))))"
  using assms by (rule verifySignature_configured)

theorem C5_verifySignature_iff_witness:
  "GITHUB_WEBHOOK_SECRET demo_config = Some ''s3cret''
   \<and> body (demo_request (Some ''sha256=c0ffee'') (Obj [])) \<noteq> Undefined
   \<and> verifySignature demo_env demo_config (demo_request (Some ''sha256=c0ffee'') (Obj [])) = Inr True
   \<and> verifySignature demo_env demo_config (demo_request (Some ''sha256=c0ffef'') (Obj [])) = Inr False"
  using C5_verifySignature_iff [of demo_config "''s3cret''"
          "demo_request (Some ''sha256=c0ffee'') (Obj [])" demo_env]
        C5_verifySignature_iff [of demo_config "''s3cret''"
          "demo_request (Some ''sha256=c0ffef'') (Obj [])" demo_env]
  by (simp add: demo_config_def demo_request_def demo_env_def)

text \<open>
  C1. With the secret configured and a parsed body: when the \<^verbatim>\<open>x-hub-signature-256\<close>
  header is not \<^verbatim>\<open>sha256=\<close> followed by the hex HMAC-SHA256 of the serialized body, the
  handler answers 403 and makes no outbound call, neither the GraphQL POST nor the REST GET
  nor the REST PATCH.
\<close>

theorem C1_mismatch_403_no_call:
  assumes "GITHUB_WEBHOOK_SECRET cfg = Some secret"
    and "body req \<noteq> Undefined"
    and "headers req ''x-hub-signature-256''
           \<noteq> Some (''sha256='' @ hmac_sha256_hex e secret (JSON_stringify e (body req)))"
  shows "fst (webhook e cfg req) = Responded 403 ''Signature mismatch!''
         \<and> filter outbound (snd (webhook e cfg req)) = []"
proof -
  have "verifySignature e cfg req = Inr False"
    using assms by (simp add: verifySignature_configured)
  then show ?thesis
    by (simp add: webhook_rejects)
qed

theorem C1_mismatch_403_no_call_witness:
  "GITHUB_WEBHOOK_SECRET demo_config = Some ''s3cret''
   \<and> body (demo_request (Some ''sha256=bad'') (demo_payload ''PVT_1'' (Str ''created''))) \<noteq> Undefined
   \<and> headers (demo_request (Some ''sha256=bad'') (demo_payload ''PVT_1'' (Str ''created'')))
        ''x-hub-signature-256''
       \<noteq> Some (''sha256='' @ hmac_sha256_hex demo_env ''s3cret''
                 (JSON_stringify demo_env (demo_payload ''PVT_1'' (Str ''created''))))
   \<and> fst (webhook demo_env demo_config
             (demo_request (Some ''sha256=bad'') (demo_payload ''PVT_1'' (Str ''created''))))
       = Responded 403 ''Signature mismatch!''
   \<and> filter outbound (snd (webhook demo_env demo_config
             (demo_request (Some ''sha256=bad'') (demo_payload ''PVT_1'' (Str ''created''))))) = []"
  using C1_mismatch_403_no_call [of demo_config "''s3cret''"
          "demo_request (Some ''sha256=bad'') (demo_payload ''PVT_1'' (Str ''created''))" demo_env]
  by (simp add: demo_config_def demo_request_def demo_env_def demo_payload_def)

text \<open>
  C10. With the secret configured and a parsed body: a request without any
  \<^verbatim>\<open>x-hub-signature-256\<close> header makes \<open>verifySignature\<close> return false, the handler
  answers 403 and makes no outbound call.
\<close>

theorem C10_absent_header_403:
  assumes "GITHUB_WEBHOOK_SECRET cfg = Some secret"
    and "body req \<noteq> Undefined"
    and "headers req ''x-hub-signature-256'' = None"
  shows "verifySignature e cfg req = Inr False
         \<and> fst (webhook e cfg req) = Responded 403 ''Signature mismatch!''
         \<and> filter outbound (snd (webhook e cfg req)) = []"
proof -
  have "verifySignature e cfg req = Inr False"
    using assms by (simp add: verifySignature_configured)
  then show ?thesis
    by (simp add: webhook_rejects)
qed

theorem C10_absent_header_403_witness:
  "GITHUB_WEBHOOK_SECRET demo_config = Some ''s3cret''
   \<and> body (demo_request None (demo_payload ''PVT_1'' (Str ''created''))) \<noteq> Undefined
   \<and> headers (demo_request None (demo_payload ''PVT_1'' (Str ''created''))) ''x-hub-signature-256'' = None
   \<and> verifySignature demo_env demo_config
        (demo_request None (demo_payload ''PVT_1'' (Str ''created''))) = Inr False
   \<and> fst (webhook demo_env demo_config (demo_request None (demo_payload ''PVT_1'' (Str ''created''))))
       = Responded 403 ''Signature mismatch!''
   \<and> filter outbound (snd (webhook demo_env demo_config
        (demo_request None (demo_payload ''PVT_1'' (Str ''created''))))) = []"
  using C10_absent_header_403 [of demo_config "''s3cret''"
          "demo_request None (demo_payload ''PVT_1'' (Str ''created''))" demo_env]
  by (simp add: demo_config_def demo_request_def demo_payload_def)

subsection \<open>Reading the payload\<close>

lemma get_prop_total: "\<not> nullish v \<Longrightarrow> \<exists>w. get_prop v k = Inr w"
  by (cases v) (simp_all add: nullish_def)

lemma get_prop_Inr_not_nullish: "get_prop v k = Inr w \<Longrightarrow> \<not> nullish v"
  by (cases v) (simp_all add: nullish_def)


lemma ToString_primitive: "primitive v \<Longrightarrow> \<exists>s. ToString f v = Inr s"
  by (cases v) simp_all

lemma ToString_object:
  "ToString f (Obj kvs) =
     (if ''toString'' \<in> fst ` set kvs
      then Inl (TypeError ''Cannot convert object to primitive value'')
      else Inr ''[object Object]'')"
  by simp

subsection \<open>The event filter\<close>

lemma webhook_accepts:
  "verifySignature e cfg req = Inr True \<Longrightarrow> webhook e cfg req = webhook_verified e cfg req"
  by (simp add: webhook_def)



lemma webhook_verified_created:
  assumes "get_prop (body req) ''projects_v2_item'' = Inr item"
    and "get_prop_opt item ''project_node_id'' = Inr (env_val (PROJECT_NODE_ID cfg))"
    and "get_prop_opt item ''content_node_id'' = Inr contentNodeId"
    and "get_prop (body req) ''action'' = Inr (Str ''created'')"
  shows "webhook_verified e cfg req = webhook_update e cfg contentNodeId"
  using assms by (simp add: webhook_verified_def)




subsection \<open>The issue resolver\<close>

lemma getIssueDetails_returns: "\<exists>r. fst (getIssueDetails e cfg cid) = Inr r"
  by (simp add: getIssueDetails_def split: prod.splits sum.splits)

lemma getIssueDetails_transport_failure:
  assumes "axios_post e ''https://api.github.com/graphql'' (graphql_data cid) (graphql_headers cfg)
             = Inl err"
  shows "getIssueDetails e cfg cid =
           (Inr None,
            [graphql_call cfg cid,
             ConsoleError [Val (Str ''Error during GraphQL request:''), Thrown err]])"
  using assms by (simp add: getIssueDetails_def getIssueDetails_try_def)

lemma getIssueDetails_errors:
  assumes "axios_post e ''https://api.github.com/graphql'' (graphql_data cid) (graphql_headers cfg)
             = Inr data"
    and "get_prop data ''errors'' = Inr errs"
    and "truthy errs"
  shows "getIssueDetails e cfg cid =
           (Inr None,
            [graphql_call cfg cid,
             ConsoleError [Val (Str ''Error fetching issue details:''), Val errs]])"
  using assms by (simp add: getIssueDetails_def getIssueDetails_try_def getIssueDetails_data_def)

lemma getIssueDetails_no_node:
  assumes "axios_post e ''https://api.github.com/graphql'' (graphql_data cid) (graphql_headers cfg)
             = Inr data"
    and "get_prop data ''errors'' = Inr errs"
    and "\<not> truthy errs"
    and "get_prop data ''data'' = Inr d"
    and "get_prop d ''node'' = Inr node"
    and "\<not> truthy node"
  shows "getIssueDetails e cfg cid = (Inr None, [graphql_call cfg cid])"
  using assms by (simp add: getIssueDetails_def getIssueDetails_try_def getIssueDetails_data_def)

lemma getIssueDetails_node:
  assumes "axios_post e ''https://api.github.com/graphql'' (graphql_data cid) (graphql_headers cfg)
             = Inr data"
    and "get_prop data ''errors'' = Inr errs"
    and "\<not> truthy errs"
    and "get_prop data ''data'' = Inr d"
    and "get_prop d ''node'' = Inr node"
    and "truthy node"
    and "get_prop node ''url'' = Inr u"
    and "get_prop node ''body'' = Inr b"
  shows "getIssueDetails e cfg cid = (Inr (Some \<lparr>url = u, body_of = b\<rparr>), [graphql_call cfg cid])"
  using assms by (simp add: getIssueDetails_def getIssueDetails_try_def getIssueDetails_data_def)

text \<open>
  C7. \<open>getIssueDetails\<close> always returns to its caller, whatever the service does. When the
  POST fails it returns \<^verbatim>\<open>null\<close> and logs the error; when the response carries a non-empty
  \<^verbatim>\<open>errors\<close> list it returns \<^verbatim>\<open>null\<close> and logs the list; when the response has no
  errors and \<^verbatim>\<open>data.node\<close> is \<^verbatim>\<open>null\<close> (or absent) it returns \<^verbatim>\<open>null\<close>; when the
  response has no errors and \<^verbatim>\<open>data.node\<close> is a node object it returns the \<^verbatim>\<open>url\<close> and
  \<^verbatim>\<open>body\<close> of that node.
\<close>

theorem C7_getIssueDetails_never_raises:
  "(\<exists>r. fst (getIssueDetails e cfg cid) = Inr r)
   \<and> (axios_post e ''https://api.github.com/graphql'' (graphql_data cid) (graphql_headers cfg)
         = Inl err \<longrightarrow>
        fst (getIssueDetails e cfg cid) = Inr None
        \<and> ConsoleError [Val (Str ''Error during GraphQL request:''), Thrown err]
            \<in> set (snd (getIssueDetails e cfg cid)))
   \<and> (axios_post e ''https://api.github.com/graphql'' (graphql_data cid) (graphql_headers cfg)
         = Inr data \<and> get_prop data ''errors'' = Inr (Arr (x # xs)) \<longrightarrow>
        fst (getIssueDetails e cfg cid) = Inr None
        \<and> ConsoleError [Val (Str ''Error fetching issue details:''), Val (Arr (x # xs))]
            \<in> set (snd (getIssueDetails e cfg cid)))
   \<and> (axios_post e ''https://api.github.com/graphql'' (graphql_data cid) (graphql_headers cfg)
         = Inr data \<and> get_prop data ''errors'' = Inr errs \<and> \<not> truthy errs
       \<and> get_prop data ''data'' = Inr d \<and> get_prop d ''node'' = Inr node \<and> \<not> truthy node \<longrightarrow>
        fst (getIssueDetails e cfg cid) = Inr None)
   \<and> (axios_post e ''https://api.github.com/graphql'' (graphql_data cid) (graphql_headers cfg)
         = Inr data \<and> get_prop data ''errors'' = Inr errs \<and> \<not> truthy errs
       \<and> get_prop data ''data'' = Inr d \<and> get_prop d ''node'' = Inr (Obj kvs)
       \<and> get_prop (Obj kvs) ''url'' = Inr u \<and> get_prop (Obj kvs) ''body'' = Inr b \<longrightarrow>
        fst (getIssueDetails e cfg cid) = Inr (Some \<lparr>url = u, body_of = b\<rparr>))"
proof (intro conjI impI)
  show "\<exists>r. fst (getIssueDetails e cfg cid) = Inr r"
    by (rule getIssueDetails_returns)
next
  assume "axios_post e ''https://api.github.com/graphql'' (graphql_data cid) (graphql_headers cfg)
            = Inl err"
  then have "getIssueDetails e cfg cid =
           (Inr None,
            [graphql_call cfg cid,
             ConsoleError [Val (Str ''Error during GraphQL request:''), Thrown err]])"
    by (rule getIssueDetails_transport_failure)
  then show "fst (getIssueDetails e cfg cid) = Inr None"
    and "ConsoleError [Val (Str ''Error during GraphQL request:''), Thrown err]
            \<in> set (snd (getIssueDetails e cfg cid))"
    by simp_all
next
  assume "axios_post e ''https://api.github.com/graphql'' (graphql_data cid) (graphql_headers cfg)
         = Inr data \<and> get_prop data ''errors'' = Inr (Arr (x # xs))"
  then have "getIssueDetails e cfg cid =
           (Inr None,
            [graphql_call cfg cid,
             ConsoleError [Val (Str ''Error fetching issue details:''), Val (Arr (x # xs))]])"
    using getIssueDetails_errors [where e = e and cfg = cfg and cid = cid and data = data
            and errs = "Arr (x # xs)"]
    by simp
  then show "fst (getIssueDetails e cfg cid) = Inr None"
    and "ConsoleError [Val (Str ''Error fetching issue details:''), Val (Arr (x # xs))]
            \<in> set (snd (getIssueDetails e cfg cid))"
    by simp_all
next
  assume "axios_post e ''https://api.github.com/graphql'' (graphql_data cid) (graphql_headers cfg)
         = Inr data \<and> get_prop data ''errors'' = Inr errs \<and> \<not> truthy errs
       \<and> get_prop data ''data'' = Inr d \<and> get_prop d ''node'' = Inr node \<and> \<not> truthy node"
  then have "getIssueDetails e cfg cid = (Inr None, [graphql_call cfg cid])"
    using getIssueDetails_no_node [where e = e and cfg = cfg and cid = cid and data = data
            and errs = errs and d = d and node = node]
    by simp
  then show "fst (getIssueDetails e cfg cid) = Inr None"
    by simp
next
  assume "axios_post e ''https://api.github.com/graphql'' (graphql_data cid) (graphql_headers cfg)
         = Inr data \<and> get_prop data ''errors'' = Inr errs \<and> \<not> truthy errs
       \<and> get_prop data ''data'' = Inr d \<and> get_prop d ''node'' = Inr (Obj kvs)
       \<and> get_prop (Obj kvs) ''url'' = Inr u \<and> get_prop (Obj kvs) ''body'' = Inr b"
  then have "getIssueDetails e cfg cid
               = (Inr (Some \<lparr>url = u, body_of = b\<rparr>), [graphql_call cfg cid])"
    using getIssueDetails_node [where e = e and cfg = cfg and cid = cid and data = data
            and errs = errs and d = d and node = "Obj kvs" and u = u and b = b]
    by simp
  then show "fst (getIssueDetails e cfg cid) = Inr (Some \<lparr>url = u, body_of = b\<rparr>)"
    by simp
qed

theorem C7_getIssueDetails_never_raises_witness:
  "fst (getIssueDetails (demo_env_post (Inl (AxiosError None ''ECONNRESET''))) demo_config
          (Str ''I_1'')) = Inr None
   \<and> ConsoleError [Val (Str ''Error during GraphQL request:''),
                     Thrown (AxiosError None ''ECONNRESET'')]
        \<in> set (snd (getIssueDetails (demo_env_post (Inl (AxiosError None ''ECONNRESET'')))
                        demo_config (Str ''I_1'')))
   \<and> fst (getIssueDetails
             (demo_env_post (Inr (Obj [(''errors'', Arr [Str ''Could not resolve to a node'']),
                                       (''data'', Obj [(''node'', Null)])])))
             demo_config (Str ''I_1'')) = Inr None
   \<and> ConsoleError [Val (Str ''Error fetching issue details:''),
                     Val (Arr [Str ''Could not resolve to a node''])]
        \<in> set (snd (getIssueDetails
             (demo_env_post (Inr (Obj [(''errors'', Arr [Str ''Could not resolve to a node'']),
                                       (''data'', Obj [(''node'', Null)])])))
             demo_config (Str ''I_1'')))
   \<and> fst (getIssueDetails (demo_env_post (Inr (Obj [(''data'', Obj [(''node'', Null)])])))
             demo_config (Str ''I_1'')) = Inr None
   \<and> fst (getIssueDetails demo_env demo_config (Str ''I_1''))
       = Inr (Some \<lparr>url = Str ''https://github.com/o/r/issues/5'', body_of = Str ''Hello''\<rparr>)"
  using C7_getIssueDetails_never_raises [where e = "demo_env_post (Inl (AxiosError None ''ECONNRESET''))"
          and cfg = demo_config and cid = "Str ''I_1''" and err = "AxiosError None ''ECONNRESET''"]
        C7_getIssueDetails_never_raises [where e = "demo_env_post (Inr (Obj [(''errors'', Arr [Str ''Could not resolve to a node'']),
                                       (''data'', Obj [(''node'', Null)])]))"
          and cfg = demo_config and cid = "Str ''I_1''"
          and data = "Obj [(''errors'', Arr [Str ''Could not resolve to a node'']),
                           (''data'', Obj [(''node'', Null)])]"
          and x = "Str ''Could not resolve to a node''" and xs = "[]"]
        C7_getIssueDetails_never_raises [where e = "demo_env_post (Inr (Obj [(''data'', Obj [(''node'', Null)])]))"
          and cfg = demo_config and cid = "Str ''I_1''"
          and data = "Obj [(''data'', Obj [(''node'', Null)])]" and errs = Undefined
          and d = "Obj [(''node'', Null)]" and node = Null]
        C7_getIssueDetails_never_raises [where e = demo_env
          and cfg = demo_config and cid = "Str ''I_1''"
          and data = "Obj [(''data'', Obj [(''node'', demo_node)])]" and errs = Undefined
          and d = "Obj [(''node'', demo_node)]"
          and kvs = "[(''url'', Str ''https://github.com/o/r/issues/5''), (''body'', Str ''Hello'')]"
          and u = "Str ''https://github.com/o/r/issues/5''" and b = "Str ''Hello''"]
  by (simp add: demo_env_post_def demo_env_def demo_node_def)

subsection \<open>The issue updater\<close>

lemma readChecklist_read:
  "readFileSync e CHECKLIST_FILE ''utf-8'' = Inr content \<Longrightarrow>
   readChecklist e = (Some \<lparr>firstLine = hd (split newline content), fullContent = content\<rparr>, [])"
  by (simp add: readChecklist_def)

lemma readChecklist_unreadable:
  "readFileSync e CHECKLIST_FILE ''utf-8'' = Inl err \<Longrightarrow>
   readChecklist e
     = (None, [ConsoleError [Val (Str ''Error reading checklist file:''), Thrown err]])"
  by (simp add: readChecklist_def)

lemma updateIssueBody_data_present:
  assumes "get_prop data ''body'' = Inr b"
    and "js_or b (Str []) = Str existing"
    and "readFileSync e CHECKLIST_FILE ''utf-8'' = Inr content"
    and "str_includes existing (hd (split newline content))"
  shows "updateIssueBody_data e cfg u data = (Inr (), [already_exists])"
  using assms by (simp add: updateIssueBody_data_def readChecklist_read)

lemma updateIssueBody_data_absent:
  assumes "get_prop data ''body'' = Inr b"
    and "js_or b (Str []) = Str existing"
    and "readFileSync e CHECKLIST_FILE ''utf-8'' = Inr content"
    and "\<not> str_includes existing (hd (split newline content))"
  shows "updateIssueBody_data e cfg u data =
           (case axios_patch e u (Obj [(''body'', Str (existing @ [newline, newline] @ content))])
                   (rest_headers cfg) of
              Inl err \<Rightarrow>
                (Inl err,
                 [AxiosPatch u (Obj [(''body'', Str (existing @ [newline, newline] @ content))])
                    (rest_headers cfg)])
            | Inr r \<Rightarrow>
                (Inr (),
                 [AxiosPatch u (Obj [(''body'', Str (existing @ [newline, newline] @ content))])
                    (rest_headers cfg),
                  updated]))"
  using assms
  by (simp add: updateIssueBody_data_def readChecklist_read Let_def split: sum.splits)

lemma updateIssueBody_data_unreadable:
  assumes "get_prop data ''body'' = Inr b"
    and "readFileSync e CHECKLIST_FILE ''utf-8'' = Inl err"
  shows "updateIssueBody_data e cfg u data =
           (Inr (), [ConsoleError [Val (Str ''Error reading checklist file:''), Thrown err],
                     already_exists])"
  using assms by (simp add: updateIssueBody_data_def readChecklist_unreadable)

lemma updateIssueBody_returns: "fst (updateIssueBody e cfg (Str s)) = Inr ()"
  by (simp add: updateIssueBody_def split: prod.splits sum.splits)

lemma updateIssueBody_answered:
  assumes "axios_get e (rest_url s) (rest_headers cfg) = Inr data"
  shows "snd (updateIssueBody e cfg (Str s)) =
           [ConsoleLog [Val (Str ''Updating issue at:''), Val (Str (rest_url s))],
            AxiosGet (rest_url s) (rest_headers cfg)]
           @ (case updateIssueBody_data e cfg (rest_url s) data of
                (Inl err, evs) \<Rightarrow>
                  evs @ [ConsoleError [Val (Str ''Error updating the issue:''),
                                       Val (error_detail err)]]
              | (Inr r, evs) \<Rightarrow> evs)"
  using assms
  by (simp add: updateIssueBody_def updateIssueBody_try_def split: prod.splits sum.splits)

lemma updateIssueBody_get_failure:
  assumes "axios_get e (rest_url s) (rest_headers cfg) = Inl err"
  shows "snd (updateIssueBody e cfg (Str s)) =
           [ConsoleLog [Val (Str ''Updating issue at:''), Val (Str (rest_url s))],
            AxiosGet (rest_url s) (rest_headers cfg),
            ConsoleError [Val (Str ''Error updating the issue:''), Val (error_detail err)]]"
  using assms by (simp add: updateIssueBody_def updateIssueBody_try_def)

lemma updateIssueBody_present:
  assumes "axios_get e (rest_url s) (rest_headers cfg) = Inr data"
    and "get_prop data ''body'' = Inr b"
    and "js_or b (Str []) = Str existing"
    and "readFileSync e CHECKLIST_FILE ''utf-8'' = Inr content"
    and "str_includes existing (hd (split newline content))"
  shows "snd (updateIssueBody e cfg (Str s)) =
           [ConsoleLog [Val (Str ''Updating issue at:''), Val (Str (rest_url s))],
            AxiosGet (rest_url s) (rest_headers cfg),
            already_exists]"
  using assms updateIssueBody_data_present [of data b existing e content cfg "rest_url s"]
  by (simp add: updateIssueBody_answered)

lemma updateIssueBody_absent:
  assumes "axios_get e (rest_url s) (rest_headers cfg) = Inr data"
    and "get_prop data ''body'' = Inr b"
    and "js_or b (Str []) = Str existing"
    and "readFileSync e CHECKLIST_FILE ''utf-8'' = Inr content"
    and "\<not> str_includes existing (hd (split newline content))"
  shows "filter is_patch (snd (updateIssueBody e cfg (Str s))) =
           [AxiosPatch (rest_url s)
              (Obj [(''body'', Str (existing @ [newline, newline] @ content))]) (rest_headers cfg)]"
  using assms updateIssueBody_data_absent [of data b existing e content cfg "rest_url s"]
  by (simp add: updateIssueBody_answered updated_def split: sum.splits)

text \<open>Every outbound call of the updater goes to the URL built at line 103.\<close>

lemma updateIssueBody_data_targets:
  "ev \<in> set (snd (updateIssueBody_data e cfg u data)) \<Longrightarrow> outbound ev \<Longrightarrow> call_url ev = Some u"
  by (auto simp: updateIssueBody_data_def readChecklist_def already_exists_def updated_def Let_def
      split: sum.splits prod.splits option.splits bool.splits if_splits)

lemma updateIssueBody_targets:
  assumes "ev \<in> set (snd (updateIssueBody e cfg (Str s)))"
    and "outbound ev"
  shows "call_url ev = Some (rest_url s)"
proof (cases "axios_get e (rest_url s) (rest_headers cfg)")
  case (Inl err)
  then show ?thesis
    using assms by (auto simp: updateIssueBody_get_failure)
next
  case (Inr data)
  obtain r evs where d: "updateIssueBody_data e cfg (rest_url s) data = (r, evs)"
    by (cases "updateIssueBody_data e cfg (rest_url s) data")
  show ?thesis
    using assms Inr d updateIssueBody_data_targets [of ev e cfg "rest_url s" data]
    by (cases r) (auto simp: updateIssueBody_answered)
qed

lemma updateIssueBody_gets:
  "AxiosGet (rest_url s) (rest_headers cfg) \<in> set (snd (updateIssueBody e cfg (Str s)))"
  by (cases "axios_get e (rest_url s) (rest_headers cfg)")
     (simp_all add: updateIssueBody_get_failure updateIssueBody_answered)

text \<open>
  C2. When the GET answers with an issue whose body (the empty string when the body is
  \<^verbatim>\<open>null\<close> or missing, by \<^verbatim>\<open>issueResponse.data.body || ''\<close>) contains the first line of
  the checklist file as a substring, \<open>updateIssueBody\<close> makes no PATCH call: after the GET
  it only logs that the checklist is already there.
\<close>

theorem C2_update_idempotent:
  assumes "axios_get e (rest_url issueUrl) (rest_headers cfg) = Inr data"
    and "get_prop data ''body'' = Inr b"
    and "js_or b (Str []) = Str existing"
    and "readFileSync e CHECKLIST_FILE ''utf-8'' = Inr content"
    and "str_includes existing (hd (split newline content))"
  shows "filter is_patch (snd (updateIssueBody e cfg (Str issueUrl))) = []
         \<and> snd (updateIssueBody e cfg (Str issueUrl)) =
             [ConsoleLog [Val (Str ''Updating issue at:''), Val (Str (rest_url issueUrl))],
              AxiosGet (rest_url issueUrl) (rest_headers cfg),
              already_exists]"
  using updateIssueBody_present [OF assms]
  by (simp add: already_exists_def)

theorem C2_update_idempotent_witness:
  "str_includes (''Hello'' @ [newline, newline] @ ''## Checklist'' @ [newline] @ ''- [ ] Step 1'')
     (hd (split newline demo_checklist))
   \<and> filter is_patch
       (snd (updateIssueBody
          (demo_env_get (Inr (Obj [(''body'',
             Str (''Hello'' @ [newline, newline] @ ''## Checklist'' @ [newline] @ ''- [ ] Step 1''))])))
          demo_config (Str ''https://github.com/o/r/issues/5''))) = []"
  using C2_update_idempotent [where issueUrl = "''https://github.com/o/r/issues/5''"
          and cfg = demo_config
          and e = "demo_env_get (Inr (Obj [(''body'',
             Str (''Hello'' @ [newline, newline] @ ''## Checklist'' @ [newline] @ ''- [ ] Step 1''))]))"
          and data = "Obj [(''body'',
             Str (''Hello'' @ [newline, newline] @ ''## Checklist'' @ [newline] @ ''- [ ] Step 1''))]"
          and b = "Str (''Hello'' @ [newline, newline] @ ''## Checklist'' @ [newline] @ ''- [ ] Step 1'')"
          and existing = "''Hello'' @ [newline, newline] @ ''## Checklist'' @ [newline] @ ''- [ ] Step 1''"
          and content = demo_checklist]
  by (simp add: demo_env_get_def demo_env_def demo_checklist_def newline_def js_or_def
        already_exists_def)

text \<open>
  C9. When the first line of the checklist file is the empty string, the substring test
  succeeds on every existing body, and \<open>updateIssueBody\<close> makes no PATCH call whatever the
  body of the issue is (a string, or \<^verbatim>\<open>null\<close> or missing and taken as the empty string).
\<close>

theorem C9_empty_first_line_never_patches:
  assumes "readFileSync e CHECKLIST_FILE ''utf-8'' = Inr content"
    and "hd (split newline content) = []"
    and "axios_get e (rest_url issueUrl) (rest_headers cfg) = Inr data"
    and "get_prop data ''body'' = Inr b"
    and "js_or b (Str []) = Str existing"
  shows "str_includes existing (hd (split newline content))
         \<and> filter is_patch (snd (updateIssueBody e cfg (Str issueUrl))) = []"
proof -
  have inc: "str_includes existing (hd (split newline content))"
    using assms(2) by (simp add: str_includes_empty)
  have "snd (updateIssueBody e cfg (Str issueUrl)) =
           [ConsoleLog [Val (Str ''Updating issue at:''), Val (Str (rest_url issueUrl))],
            AxiosGet (rest_url issueUrl) (rest_headers cfg),
            already_exists]"
    using assms(3,4,5,1) inc by (rule updateIssueBody_present)
  then show ?thesis
    using inc by (simp add: already_exists_def)
qed

theorem C9_empty_first_line_never_patches_witness:
  "hd (split newline []) = []
   \<and> hd (split newline (newline # ''## Checklist'')) = []
   \<and> filter is_patch (snd (updateIssueBody (demo_env_file (Inr [])) demo_config
        (Str ''https://github.com/o/r/issues/5''))) = []
   \<and> filter is_patch (snd (updateIssueBody (demo_env_file (Inr (newline # ''## Checklist'')))
        demo_config (Str ''https://github.com/o/r/issues/5''))) = []"
  using C9_empty_first_line_never_patches [where e = "demo_env_file (Inr [])" and content = "[]"
          and issueUrl = "''https://github.com/o/r/issues/5''" and cfg = demo_config
          and data = "Obj [(''body'', Str ''Hello'')]" and b = "Str ''Hello''"
          and existing = "''Hello''"]
        C9_empty_first_line_never_patches [where e = "demo_env_file (Inr (newline # ''## Checklist''))"
          and content = "newline # ''## Checklist''"
          and issueUrl = "''https://github.com/o/r/issues/5''" and cfg = demo_config
          and data = "Obj [(''body'', Str ''Hello'')]" and b = "Str ''Hello''"
          and existing = "''Hello''"]
  by (simp add: demo_env_file_def demo_env_def js_or_def)

subsection \<open>The URL of the REST resource\<close>

lemma split_html_url:
  assumes "CHR ''/'' \<notin> set owner" and "CHR ''/'' \<notin> set repo" and "CHR ''/'' \<notin> set number"
  shows "split CHR ''/'' (''https://github.com/'' @ owner @ ''/'' @ repo @ ''/issues/'' @ number)
           = [''https:'', [], ''github.com'', owner, repo, ''issues'', number]"
proof -
  have n: "split CHR ''/'' number = [number]"
    using assms(3) by (rule split_no_separator)
  have i: "split CHR ''/'' (''issues/'' @ number) = [''issues'', number]"
    using split_append_separator [of "CHR ''/''" "''issues''" number] n by simp
  have r: "split CHR ''/'' (repo @ ''/issues/'' @ number) = [repo, ''issues'', number]"
    using split_append_separator [of "CHR ''/''" repo "''issues/'' @ number"] assms(2) i by simp
  have ow: "split CHR ''/'' (owner @ ''/'' @ repo @ ''/issues/'' @ number)
              = [owner, repo, ''issues'', number]"
    using split_append_separator [of "CHR ''/''" owner "repo @ ''/issues/'' @ number"] assms(1) r
    by simp
  have g: "split CHR ''/'' (''github.com/'' @ owner @ ''/'' @ repo @ ''/issues/'' @ number)
              = [''github.com'', owner, repo, ''issues'', number]"
    using split_append_separator [of "CHR ''/''" "''github.com''"
            "owner @ ''/'' @ repo @ ''/issues/'' @ number"] ow
    by simp
  have e: "split CHR ''/'' (''/github.com/'' @ owner @ ''/'' @ repo @ ''/issues/'' @ number)
              = [[], ''github.com'', owner, repo, ''issues'', number]"
    using split_append_separator [of "CHR ''/''" "[]"
            "''github.com/'' @ owner @ ''/'' @ repo @ ''/issues/'' @ number"] g
    by simp
  show ?thesis
    using split_append_separator [of "CHR ''/''" "''https:''"
            "''/github.com/'' @ owner @ ''/'' @ repo @ ''/issues/'' @ number"] e
    by simp
qed

lemma rest_url_html_url:
  assumes "CHR ''/'' \<notin> set owner" and "CHR ''/'' \<notin> set repo" and "CHR ''/'' \<notin> set number"
  shows "rest_url (''https://github.com/'' @ owner @ ''/'' @ repo @ ''/issues/'' @ number)
           = ''https://api.github.com/repos/'' @ owner @ ''/'' @ repo @ ''/issues/'' @ number"
  unfolding rest_url_def split_html_url [OF assms]
  by (simp add: js_index_def)

lemma rest_url_api_url:
  "rest_url ''https://api.github.com/repos/o/r/issues/5''
     = ''https://api.github.com/repos/repos/o/issues/issues''"
  by (simp add: rest_url_def js_index_def)

text \<open>
  C4, as the claim states it, fails: an issue URL of the shape
  \<^verbatim>\<open>https://api.github.com/repos/{owner}/{repo}/issues/{number}\<close> has \<^verbatim>\<open>repos\<close> at position 3,
  the owner at position 4 and \<^verbatim>\<open>issues\<close> at position 6, so for
  \<^verbatim>\<open>https://api.github.com/repos/o/r/issues/5\<close> the GET goes to
  \<^verbatim>\<open>https://api.github.com/repos/repos/o/issues/issues\<close> and not to the URL of the issue.
\<close>

theorem C4_api_shape_counterexample:
  "js_index (split CHR ''/'' ''https://api.github.com/repos/o/r/issues/5'') 3 = Some ''repos''
   \<and> js_index (split CHR ''/'' ''https://api.github.com/repos/o/r/issues/5'') 4 = Some ''o''
   \<and> js_index (split CHR ''/'' ''https://api.github.com/repos/o/r/issues/5'') 6 = Some ''issues''
   \<and> snd (updateIssueBody (demo_env_get (Inl (AxiosError (Some (Obj [(''message'', Str ''Not Found'')]))
                                              ''Request failed with status code 404'')))
             demo_config (Str ''https://api.github.com/repos/o/r/issues/5''))
       = [ConsoleLog [Val (Str ''Updating issue at:''),
                      Val (Str ''https://api.github.com/repos/repos/o/issues/issues'')],
          AxiosGet ''https://api.github.com/repos/repos/o/issues/issues'' (rest_headers demo_config),
          ConsoleError [Val (Str ''Error updating the issue:''),
                        Val (Obj [(''message'', Str ''Not Found'')])]]
   \<and> AxiosGet ''https://api.github.com/repos/o/r/issues/5'' (rest_headers demo_config)
       \<notin> set (snd (updateIssueBody (demo_env_get (Inl (AxiosError (Some (Obj [(''message'', Str ''Not Found'')]))
                                              ''Request failed with status code 404'')))
             demo_config (Str ''https://api.github.com/repos/o/r/issues/5'')))"
  by (simp add: updateIssueBody_get_failure demo_env_get_def demo_env_def rest_url_api_url
        js_index_def)

text \<open>
  C4, amended. The issue URL that the handler passes is the \<^verbatim>\<open>url\<close> field of the GraphQL
  issue, of the shape \<^verbatim>\<open>https://github.com/{owner}/{repo}/issues/{number}\<close>. For every such
  URL (owner, repository and number without a slash) positions 3, 4 and 6 of the URL split
  at the slashes are the owner, the repository and the number, the GET goes to
  \<^verbatim>\<open>https://api.github.com/repos/{owner}/{repo}/issues/{number}\<close>, and every outbound call
  of \<open>updateIssueBody\<close> (the GET and the PATCH) goes to that URL.
\<close>

theorem C4_html_shape_rest_url:
  assumes "CHR ''/'' \<notin> set owner" and "CHR ''/'' \<notin> set repo" and "CHR ''/'' \<notin> set number"
    and "issueUrl = ''https://github.com/'' @ owner @ ''/'' @ repo @ ''/issues/'' @ number"
    and "api = ''https://api.github.com/repos/'' @ owner @ ''/'' @ repo @ ''/issues/'' @ number"
  shows "js_index (split CHR ''/'' issueUrl) 3 = Some owner
         \<and> js_index (split CHR ''/'' issueUrl) 4 = Some repo
         \<and> js_index (split CHR ''/'' issueUrl) 6 = Some number
         \<and> AxiosGet api (rest_headers cfg) \<in> set (snd (updateIssueBody e cfg (Str issueUrl)))
         \<and> (\<forall>ev \<in> set (snd (updateIssueBody e cfg (Str issueUrl))).
               outbound ev \<longrightarrow> call_url ev = Some api)"
proof -
  have parts: "split CHR ''/'' issueUrl = [''https:'', [], ''github.com'', owner, repo, ''issues'', number]"
    unfolding assms(4) using assms(1,2,3) by (rule split_html_url)
  have api: "rest_url issueUrl = api"
    unfolding assms(4,5) using assms(1,2,3) by (rule rest_url_html_url)
  have "AxiosGet api (rest_headers cfg) \<in> set (snd (updateIssueBody e cfg (Str issueUrl)))"
    using updateIssueBody_gets [of issueUrl cfg e] api by simp
  moreover have "\<forall>ev \<in> set (snd (updateIssueBody e cfg (Str issueUrl))).
               outbound ev \<longrightarrow> call_url ev = Some api"
    using updateIssueBody_targets [of _ e cfg issueUrl] api by auto
  ultimately show ?thesis
    using parts by (simp add: js_index_def)
qed

theorem C4_html_shape_rest_url_witness:
  "CHR ''/'' \<notin> set ''o'' \<and> CHR ''/'' \<notin> set ''r'' \<and> CHR ''/'' \<notin> set ''5''
   \<and> js_index (split CHR ''/'' ''https://github.com/o/r/issues/5'') 3 = Some ''o''
   \<and> js_index (split CHR ''/'' ''https://github.com/o/r/issues/5'') 4 = Some ''r''
   \<and> js_index (split CHR ''/'' ''https://github.com/o/r/issues/5'') 6 = Some ''5''
   \<and> AxiosGet ''https://api.github.com/repos/o/r/issues/5'' (rest_headers demo_config)
       \<in> set (snd (updateIssueBody demo_env demo_config (Str ''https://github.com/o/r/issues/5'')))
   \<and> list_all (\<lambda>ev. \<not> outbound ev \<or> call_url ev = Some ''https://api.github.com/repos/o/r/issues/5'')
       (snd (updateIssueBody demo_env demo_config (Str ''https://github.com/o/r/issues/5'')))"
  using C4_html_shape_rest_url [where owner = "''o''" and repo = "''r''" and number = "''5''"
          and issueUrl = "''https://github.com/o/r/issues/5''"
          and api = "''https://api.github.com/repos/o/r/issues/5''"
          and e = demo_env and cfg = demo_config]
  by (simp add: list_all_iff)

subsection \<open>The handler, from the payload to the update\<close>

lemma getIssueDetails_no_patch: "filter is_patch (snd (getIssueDetails e cfg cid)) = []"
  by (auto simp: getIssueDetails_def getIssueDetails_try_def getIssueDetails_data_def
        graphql_call_def split: sum.splits prod.splits if_splits)

lemma webhook_update_string_url:
  assumes "fst (getIssueDetails e cfg (Str cid)) = Inr (Some details)"
    and "url details = Str u"
  shows "fst (webhook_update e cfg (Str cid)) = processed"
proof -
  obtain evs where g: "getIssueDetails e cfg (Str cid) = (Inr (Some details), evs)"
    using assms(1) by (cases "getIssueDetails e cfg (Str cid)") simp
  obtain evs' where u: "updateIssueBody e cfg (Str u) = (Inr (), evs')"
    using updateIssueBody_returns [of e cfg u] by (cases "updateIssueBody e cfg (Str u)") simp
  show ?thesis
    using g u assms(2) by (simp add: webhook_update_def Let_def)
qed

lemma webhook_update_events:
  assumes "cid \<noteq> []"
    and "fst (getIssueDetails e cfg (Str cid)) = Inr (Some details)"
    and "url details = Str u"
    and "u \<noteq> []"
  shows "snd (webhook_update e cfg (Str cid)) =
           ConsoleLog [Val (Str (''Found content_node_id: '' @ cid))]
           # snd (getIssueDetails e cfg (Str cid))
           @ ConsoleLog [Val (Str (''Issue URL: '' @ u))]
           # snd (updateIssueBody e cfg (Str u))"
proof -
  obtain evs where g: "getIssueDetails e cfg (Str cid) = (Inr (Some details), evs)"
    using assms(2) by (cases "getIssueDetails e cfg (Str cid)") simp
  obtain evs' where u: "updateIssueBody e cfg (Str u) = (Inr (), evs')"
    using updateIssueBody_returns [of e cfg u] by (cases "updateIssueBody e cfg (Str u)") simp
  show ?thesis
    using g u assms(1,3,4) by (simp add: webhook_update_def Let_def)
qed

text \<open>
  C3. For a request whose signature was accepted, whose project is the configured target,
  whose action is \<^verbatim>\<open>created\<close> and whose content node id \<open>cid\<close> resolves
  (\<open>getIssueDetails\<close> returns details with the URL \<open>issueUrl\<close>): the GET answers with an
  issue whose \<^verbatim>\<open>body\<close> is \<open>b\<close>, and \<open>existing\<close> is that body when it is a string and
  the empty string when it is \<^verbatim>\<open>null\<close> (or any other falsy value, or missing). When
  \<open>existing\<close> does not contain the first line of the checklist file, the handler makes
  exactly one PATCH call, to the REST URL of the issue, and its \<^verbatim>\<open>body\<close> field is
  \<open>existing\<close>, two newline characters and the whole content of the checklist file: for a
  \<^verbatim>\<open>null\<close> body, two newline characters and the content of the file.
\<close>

theorem C3_patch_appends_checklist:
  assumes "verifySignature e cfg req = Inr True"
    and "PROJECT_NODE_ID cfg = Some target"
    and "get_prop (body req) ''projects_v2_item'' = Inr item"
    and "get_prop_opt item ''project_node_id'' = Inr (Str target)"
    and "get_prop (body req) ''action'' = Inr (Str ''created'')"
    and "get_prop_opt item ''content_node_id'' = Inr (Str cid)"
    and "cid \<noteq> []"
    and "fst (getIssueDetails e cfg (Str cid)) = Inr (Some details)"
    and "url details = Str issueUrl"
    and "issueUrl \<noteq> []"
    and "axios_get e (rest_url issueUrl) (rest_headers cfg) = Inr data"
    and "get_prop data ''body'' = Inr b"
    and "b = Str existing \<or> (\<not> truthy b \<and> existing = [])"
    and "readFileSync e CHECKLIST_FILE ''utf-8'' = Inr content"
    and "\<not> str_includes existing (hd (split newline content))"
  shows "filter is_patch (snd (webhook e cfg req)) =
           [AxiosPatch (rest_url issueUrl)
              (Obj [(''body'', Str (existing @ [newline, newline] @ content))])
              (rest_headers cfg)]"
proof -
  have "webhook e cfg req = webhook_update e cfg (Str cid)"
    using assms(1-6) webhook_verified_created [of req item cfg "Str cid" e]
    by (simp add: webhook_accepts)
  then have "snd (webhook e cfg req) =
           ConsoleLog [Val (Str (''Found content_node_id: '' @ cid))]
           # snd (getIssueDetails e cfg (Str cid))
           @ ConsoleLog [Val (Str (''Issue URL: '' @ issueUrl))]
           # snd (updateIssueBody e cfg (Str issueUrl))"
    using webhook_update_events [OF assms(7-10)] by simp
  moreover have "js_or b (Str []) = Str existing"
    using assms(13) by (auto simp: js_or_def)
  ultimately show ?thesis
    using updateIssueBody_absent [OF assms(11,12) _ assms(14,15)]
    by (simp add: getIssueDetails_no_patch)
qed

theorem C3_patch_appends_checklist_witness:
  "rest_url ''https://github.com/o/r/issues/5'' = ''https://api.github.com/repos/o/r/issues/5''
   \<and> verifySignature demo_env demo_config
        (demo_request (Some ''sha256=c0ffee'') (demo_payload ''PVT_1'' (Str ''created''))) = Inr True
   \<and> \<not> str_includes ''Hello'' (hd (split newline demo_checklist))
   \<and> filter is_patch (snd (webhook demo_env demo_config
        (demo_request (Some ''sha256=c0ffee'') (demo_payload ''PVT_1'' (Str ''created'')))))
       = [AxiosPatch ''https://api.github.com/repos/o/r/issues/5''
            (Obj [(''body'',
               Str (''Hello'' @ [newline, newline] @ ''## Checklist'' @ [newline] @ ''- [ ] Step 1''))])
            (rest_headers demo_config)]
   \<and> \<not> truthy Null
   \<and> \<not> str_includes [] (hd (split newline demo_checklist))
   \<and> filter is_patch (snd (webhook (demo_env_get (Inr (Obj [(''body'', Null)]))) demo_config
        (demo_request (Some ''sha256=c0ffee'') (demo_payload ''PVT_1'' (Str ''created'')))))
       = [AxiosPatch ''https://api.github.com/repos/o/r/issues/5''
            (Obj [(''body'',
               Str ([newline, newline] @ ''## Checklist'' @ [newline] @ ''- [ ] Step 1''))])
            (rest_headers demo_config)]"
  using C3_patch_appends_checklist [where e = demo_env and cfg = demo_config
          and req = "demo_request (Some ''sha256=c0ffee'') (demo_payload ''PVT_1'' (Str ''created''))"
          and target = "''PVT_1''"
          and item = "Obj [(''project_node_id'', Str ''PVT_1''), (''content_node_id'', Str ''I_1'')]"
          and cid = "''I_1''"
          and details = "\<lparr>url = Str ''https://github.com/o/r/issues/5'', body_of = Str ''Hello''\<rparr>"
          and issueUrl = "''https://github.com/o/r/issues/5''"
          and data = "Obj [(''body'', Str ''Hello'')]" and b = "Str ''Hello''"
          and existing = "''Hello''" and content = demo_checklist]
        C3_patch_appends_checklist [where e = "demo_env_get (Inr (Obj [(''body'', Null)]))"
          and cfg = demo_config
          and req = "demo_request (Some ''sha256=c0ffee'') (demo_payload ''PVT_1'' (Str ''created''))"
          and target = "''PVT_1''"
          and item = "Obj [(''project_node_id'', Str ''PVT_1''), (''content_node_id'', Str ''I_1'')]"
          and cid = "''I_1''"
          and details = "\<lparr>url = Str ''https://github.com/o/r/issues/5'', body_of = Str ''Hello''\<rparr>"
          and issueUrl = "''https://github.com/o/r/issues/5''"
          and data = "Obj [(''body'', Null)]" and b = Null
          and existing = "[]" and content = demo_checklist]
        rest_url_html_url [of "''o''" "''r''" "''5''"]
  by (simp add: verifySignature_def X_HUB_SIGNATURE_256_def SHA256_HEADER_PREFIX_def
        demo_config_def demo_request_def demo_env_def demo_env_get_def demo_payload_def
        demo_node_def demo_checklist_def newline_def get_prop_opt_def nullish_def
        getIssueDetails_def getIssueDetails_try_def getIssueDetails_data_def)

subsection \<open>Failures of the update\<close>

lemma updateIssueBody_data_patch_failure:
  "AxiosPatch u' p h \<in> set (snd (updateIssueBody_data e cfg u data)) \<Longrightarrow>
   axios_patch e u' p h = Inl err \<Longrightarrow>
   fst (updateIssueBody_data e cfg u data) = Inl err"
  by (auto simp: updateIssueBody_data_def readChecklist_def already_exists_def updated_def Let_def
      split: sum.splits prod.splits option.splits bool.splits if_splits)

lemma updateIssueBody_patch_failure:
  assumes "AxiosPatch u p h \<in> set (snd (updateIssueBody e cfg (Str s)))"
    and "axios_patch e u p h = Inl err"
  shows "ConsoleError [Val (Str ''Error updating the issue:''), Val (error_detail err)]
           \<in> set (snd (updateIssueBody e cfg (Str s)))"
proof (cases "axios_get e (rest_url s) (rest_headers cfg)")
  case (Inl err')
  then show ?thesis
    using assms(1) by (simp add: updateIssueBody_get_failure)
next
  case (Inr data)
  obtain r evs where d: "updateIssueBody_data e cfg (rest_url s) data = (r, evs)"
    by (cases "updateIssueBody_data e cfg (rest_url s) data")
  have "AxiosPatch u p h \<in> set evs"
    using assms(1) Inr d by (cases r) (auto simp: updateIssueBody_answered)
  then have "r = Inl err"
    using updateIssueBody_data_patch_failure [of u p h e cfg "rest_url s" data err] assms(2) d
    by simp
  then show ?thesis
    using Inr d by (simp add: updateIssueBody_answered)
qed

lemma updateIssueBody_unreadable:
  assumes "axios_get e (rest_url s) (rest_headers cfg) = Inr data"
    and "\<not> nullish data"
    and "readFileSync e CHECKLIST_FILE ''utf-8'' = Inl err"
  shows "snd (updateIssueBody e cfg (Str s)) =
           [ConsoleLog [Val (Str ''Updating issue at:''), Val (Str (rest_url s))],
            AxiosGet (rest_url s) (rest_headers cfg),
            ConsoleError [Val (Str ''Error reading checklist file:''), Thrown err],
            already_exists]"
proof -
  obtain b where "get_prop data ''body'' = Inr b"
    using assms(2) get_prop_total by blast
  then show ?thesis
    using assms(1,3) updateIssueBody_data_unreadable [of data b e err cfg "rest_url s"]
    by (simp add: updateIssueBody_answered)
qed

text \<open>
  C8. Given an issue URL that is a string, \<open>updateIssueBody\<close> always returns to its caller.
  A failing GET is logged by the \<^verbatim>\<open>catch\<close> clause and no PATCH is made; a failing PATCH
  is logged by the \<^verbatim>\<open>catch\<close> clause; an unreadable checklist file is logged by
  \<open>readChecklist\<close> and no PATCH is made; a URL with missing segments gives a REST URL with
  \<^verbatim>\<open>undefined\<close> in their place and the GET decides. Whatever the GET, the PATCH and the
  file read do, the handler that reached the update with that URL answers 200.
\<close>

theorem C8_update_failures_swallowed:
  "fst (updateIssueBody e cfg (Str issueUrl)) = Inr ()
   \<and> (axios_get e (rest_url issueUrl) (rest_headers cfg) = Inl err \<longrightarrow>
        ConsoleError [Val (Str ''Error updating the issue:''), Val (error_detail err)]
          \<in> set (snd (updateIssueBody e cfg (Str issueUrl)))
        \<and> filter is_patch (snd (updateIssueBody e cfg (Str issueUrl))) = [])
   \<and> (AxiosPatch u p h \<in> set (snd (updateIssueBody e cfg (Str issueUrl)))
       \<and> axios_patch e u p h = Inl err \<longrightarrow>
        ConsoleError [Val (Str ''Error updating the issue:''), Val (error_detail err)]
          \<in> set (snd (updateIssueBody e cfg (Str issueUrl))))
   \<and> (axios_get e (rest_url issueUrl) (rest_headers cfg) = Inr data \<and> \<not> nullish data
       \<and> readFileSync e CHECKLIST_FILE ''utf-8'' = Inl err \<longrightarrow>
        ConsoleError [Val (Str ''Error reading checklist file:''), Thrown err]
          \<in> set (snd (updateIssueBody e cfg (Str issueUrl)))
        \<and> filter is_patch (snd (updateIssueBody e cfg (Str issueUrl))) = [])
   \<and> (verifySignature e cfg req = Inr True
       \<and> get_prop (body req) ''projects_v2_item'' = Inr item
       \<and> get_prop_opt item ''project_node_id'' = Inr (env_val (PROJECT_NODE_ID cfg))
       \<and> get_prop (body req) ''action'' = Inr (Str ''created'')
       \<and> get_prop_opt item ''content_node_id'' = Inr (Str cid)
       \<and> fst (getIssueDetails e cfg (Str cid)) = Inr (Some details)
       \<and> url details = Str issueUrl \<longrightarrow>
        fst (webhook e cfg req) = Responded 200 ''Webhook received and processed!'')"
proof (intro conjI impI)
  show "fst (updateIssueBody e cfg (Str issueUrl)) = Inr ()"
    by (rule updateIssueBody_returns)
next
  assume "axios_get e (rest_url issueUrl) (rest_headers cfg) = Inl err"
  then have "snd (updateIssueBody e cfg (Str issueUrl)) =
           [ConsoleLog [Val (Str ''Updating issue at:''), Val (Str (rest_url issueUrl))],
            AxiosGet (rest_url issueUrl) (rest_headers cfg),
            ConsoleError [Val (Str ''Error updating the issue:''), Val (error_detail err)]]"
    by (rule updateIssueBody_get_failure)
  then show "ConsoleError [Val (Str ''Error updating the issue:''), Val (error_detail err)]
          \<in> set (snd (updateIssueBody e cfg (Str issueUrl)))"
    and "filter is_patch (snd (updateIssueBody e cfg (Str issueUrl))) = []"
    by simp_all
next
  assume "AxiosPatch u p h \<in> set (snd (updateIssueBody e cfg (Str issueUrl)))
       \<and> axios_patch e u p h = Inl err"
  then show "ConsoleError [Val (Str ''Error updating the issue:''), Val (error_detail err)]
          \<in> set (snd (updateIssueBody e cfg (Str issueUrl)))"
    using updateIssueBody_patch_failure [of u p h e cfg issueUrl err] by simp
next
  assume "axios_get e (rest_url issueUrl) (rest_headers cfg) = Inr data \<and> \<not> nullish data
       \<and> readFileSync e CHECKLIST_FILE ''utf-8'' = Inl err"
  then have "snd (updateIssueBody e cfg (Str issueUrl)) =
           [ConsoleLog [Val (Str ''Updating issue at:''), Val (Str (rest_url issueUrl))],
            AxiosGet (rest_url issueUrl) (rest_headers cfg),
            ConsoleError [Val (Str ''Error reading checklist file:''), Thrown err],
            already_exists]"
    using updateIssueBody_unreadable [of e issueUrl cfg data err] by simp
  then show "ConsoleError [Val (Str ''Error reading checklist file:''), Thrown err]
          \<in> set (snd (updateIssueBody e cfg (Str issueUrl)))"
    and "filter is_patch (snd (updateIssueBody e cfg (Str issueUrl))) = []"
    by (simp_all add: already_exists_def)
next
  assume a: "verifySignature e cfg req = Inr True
       \<and> get_prop (body req) ''projects_v2_item'' = Inr item
       \<and> get_prop_opt item ''project_node_id'' = Inr (env_val (PROJECT_NODE_ID cfg))
       \<and> get_prop (body req) ''action'' = Inr (Str ''created'')
       \<and> get_prop_opt item ''content_node_id'' = Inr (Str cid)
       \<and> fst (getIssueDetails e cfg (Str cid)) = Inr (Some details)
       \<and> url details = Str issueUrl"
  then have "webhook e cfg req = webhook_update e cfg (Str cid)"
    using webhook_verified_created [of req item cfg "Str cid" e]
    by (simp add: webhook_accepts)
  then show "fst (webhook e cfg req) = Responded 200 ''Webhook received and processed!''"
    using a webhook_update_string_url [of e cfg cid details issueUrl]
    by (simp add: processed_def)
qed

theorem C8_update_failures_swallowed_witness:
  "rest_url ''https://github.com/o'' = ''https://api.github.com/repos/o/undefined/issues/undefined''
   \<and> fst (updateIssueBody demo_env_short_url demo_config (Str ''https://github.com/o'')) = Inr ()
   \<and> ConsoleError [Val (Str ''Error updating the issue:''), Val (Obj [(''message'', Str ''Not Found'')])]
       \<in> set (snd (updateIssueBody demo_env_short_url demo_config (Str ''https://github.com/o'')))
   \<and> fst (webhook demo_env_short_url demo_config
        (demo_request (Some ''sha256=c0ffee'') (demo_payload ''PVT_1'' (Str ''created''))))
       = Responded 200 ''Webhook received and processed!''
   \<and> AxiosPatch ''https://api.github.com/repos/o/r/issues/5''
         (Obj [(''body'',
            Str (''Hello'' @ [newline, newline] @ ''## Checklist'' @ [newline] @ ''- [ ] Step 1''))])
         (rest_headers demo_config)
       \<in> set (snd (updateIssueBody (demo_env_patch (Inl (AxiosError None ''timeout of 1000ms exceeded'')))
                      demo_config (Str ''https://github.com/o/r/issues/5'')))
   \<and> ConsoleError [Val (Str ''Error updating the issue:''), Val (Str ''timeout of 1000ms exceeded'')]
       \<in> set (snd (updateIssueBody (demo_env_patch (Inl (AxiosError None ''timeout of 1000ms exceeded'')))
                      demo_config (Str ''https://github.com/o/r/issues/5'')))
   \<and> fst (webhook (demo_env_patch (Inl (AxiosError None ''timeout of 1000ms exceeded''))) demo_config
        (demo_request (Some ''sha256=c0ffee'') (demo_payload ''PVT_1'' (Str ''created''))))
       = Responded 200 ''Webhook received and processed!''
   \<and> ConsoleError [Val (Str ''Error reading checklist file:''),
                     Thrown (SystemError ''ENOENT: no such file or directory, open checklist.md'')]
       \<in> set (snd (updateIssueBody
                      (demo_env_file (Inl (SystemError ''ENOENT: no such file or directory, open checklist.md'')))
                      demo_config (Str ''https://github.com/o/r/issues/5'')))
   \<and> filter is_patch (snd (updateIssueBody
                      (demo_env_file (Inl (SystemError ''ENOENT: no such file or directory, open checklist.md'')))
                      demo_config (Str ''https://github.com/o/r/issues/5''))) = []
   \<and> fst (webhook (demo_env_file (Inl (SystemError ''ENOENT: no such file or directory, open checklist.md'')))
        demo_config
        (demo_request (Some ''sha256=c0ffee'') (demo_payload ''PVT_1'' (Str ''created''))))
       = Responded 200 ''Webhook received and processed!''"
proof -
  let ?req = "demo_request (Some ''sha256=c0ffee'') (demo_payload ''PVT_1'' (Str ''created''))"
  let ?item = "Obj [(''project_node_id'', Str ''PVT_1''), (''content_node_id'', Str ''I_1'')]"
  let ?e2 = "demo_env_patch (Inl (AxiosError None ''timeout of 1000ms exceeded''))"
  let ?e3 = "demo_env_file (Inl (SystemError ''ENOENT: no such file or directory, open checklist.md''))"
  let ?patch = "Obj [(''body'',
            Str (''Hello'' @ [newline, newline] @ ''## Checklist'' @ [newline] @ ''- [ ] Step 1''))]"
  note defs = verifySignature_def X_HUB_SIGNATURE_256_def SHA256_HEADER_PREFIX_def
    demo_config_def demo_request_def demo_env_def demo_payload_def demo_node_def
    demo_env_short_url_def demo_env_patch_def demo_env_file_def
    get_prop_opt_def nullish_def
    getIssueDetails_def getIssueDetails_try_def getIssueDetails_data_def
  have url: "rest_url ''https://github.com/o'' = ''https://api.github.com/repos/o/undefined/issues/undefined''"
    by (simp add: rest_url_def js_index_def)
  have url5: "rest_url ''https://github.com/o/r/issues/5'' = ''https://api.github.com/repos/o/r/issues/5''"
    using rest_url_html_url [of "''o''" "''r''" "''5''"] by simp
  have p: "AxiosPatch ''https://api.github.com/repos/o/r/issues/5'' ?patch (rest_headers demo_config)
       \<in> set (snd (updateIssueBody ?e2 demo_config (Str ''https://github.com/o/r/issues/5'')))"
    by (simp add: updateIssueBody_def updateIssueBody_try_def updateIssueBody_data_def
          readChecklist_def url5 demo_env_patch_def demo_env_def demo_checklist_def newline_def
          js_or_def Let_def)
  have w1: "fst (updateIssueBody demo_env_short_url demo_config (Str ''https://github.com/o'')) = Inr ()
     \<and> ConsoleError [Val (Str ''Error updating the issue:''), Val (Obj [(''message'', Str ''Not Found'')])]
         \<in> set (snd (updateIssueBody demo_env_short_url demo_config (Str ''https://github.com/o'')))
     \<and> fst (webhook demo_env_short_url demo_config ?req)
         = Responded 200 ''Webhook received and processed!''"
    using C8_update_failures_swallowed [where e = demo_env_short_url and cfg = demo_config
            and issueUrl = "''https://github.com/o''" and req = ?req and item = ?item
            and cid = "''I_1''"
            and details = "\<lparr>url = Str ''https://github.com/o'', body_of = Null\<rparr>"
            and err = "AxiosError (Some (Obj [(''message'', Str ''Not Found'')]))
                         ''Request failed with status code 404''"]
    by (simp add: defs)
  have w2: "ConsoleError [Val (Str ''Error updating the issue:''), Val (Str ''timeout of 1000ms exceeded'')]
         \<in> set (snd (updateIssueBody ?e2 demo_config (Str ''https://github.com/o/r/issues/5'')))
     \<and> fst (webhook ?e2 demo_config ?req) = Responded 200 ''Webhook received and processed!''"
    using p C8_update_failures_swallowed [where e = ?e2 and cfg = demo_config
            and issueUrl = "''https://github.com/o/r/issues/5''" and req = ?req and item = ?item
            and cid = "''I_1''"
            and details = "\<lparr>url = Str ''https://github.com/o/r/issues/5'', body_of = Str ''Hello''\<rparr>"
            and u = "''https://api.github.com/repos/o/r/issues/5''" and p = ?patch
            and h = "rest_headers demo_config"
            and err = "AxiosError None ''timeout of 1000ms exceeded''"]
    by (simp add: defs)
  have w3: "ConsoleError [Val (Str ''Error reading checklist file:''),
                     Thrown (SystemError ''ENOENT: no such file or directory, open checklist.md'')]
         \<in> set (snd (updateIssueBody ?e3 demo_config (Str ''https://github.com/o/r/issues/5'')))
     \<and> filter is_patch (snd (updateIssueBody ?e3 demo_config (Str ''https://github.com/o/r/issues/5''))) = []
     \<and> fst (webhook ?e3 demo_config ?req) = Responded 200 ''Webhook received and processed!''"
    using C8_update_failures_swallowed [where e = ?e3 and cfg = demo_config
            and issueUrl = "''https://github.com/o/r/issues/5''" and req = ?req and item = ?item
            and cid = "''I_1''"
            and details = "\<lparr>url = Str ''https://github.com/o/r/issues/5'', body_of = Str ''Hello''\<rparr>"
            and data = "Obj [(''body'', Str ''Hello'')]"
            and err = "SystemError ''ENOENT: no such file or directory, open checklist.md''"]
    by (simp add: defs)
  show ?thesis
    using url p w1 w2 w3 by simp
qed

end
